theory Spec2Isabelle
  imports Main "HOL-Library.AList"
begin

section \<open>Python values used by the handlers\<close>

text \<open>
  The notes API is a set of FastAPI handlers (Python). They are modelled as pure
  functions: every raise of the source is an \<open>Inl\<close> of the result, the record
  store and the Redis store are passed in and returned, and the clock reading
  \<^verbatim>\<open>int(time.time())\<close> is the parameter \<open>now\<close> (whole seconds). The Redis store
  and the token library read the same clock.
\<close>

datatype exn =
    ValueError
  | ZeroDivisionError
  | AttributeError
  | ConnectionError
  | ResponseError
  | DBAPIError
  | RequestValidationError
  | HTTPException int string "(string \<times> string) list"

text \<open>\<^verbatim>\<open>str(i)\<close> of a Python int: decimal digits, a leading minus sign when negative.\<close>

definition digit_char :: "nat \<Rightarrow> char" where
  "digit_char d = ''0123456789'' ! d"

fun digits :: "nat \<Rightarrow> string" where
  "digits n = (if n < 10 then [digit_char n] else digits (n div 10) @ [digit_char (n mod 10)])"

declare digits.simps [simp del]

definition str_int :: "int \<Rightarrow> string" where
  "str_int i = (if i < 0 then CHR ''-'' # digits (nat (- i)) else digits (nat i))"

text \<open>
  \<^verbatim>\<open>int(s)\<close> of a string, for the decimal strings that \<^verbatim>\<open>str\<close> writes (an optional
  minus sign, then digits); anything else is a \<open>ValueError\<close>. These are the only
  strings the rate limiter ever stores under its keys.
\<close>

definition digit_val :: "char \<Rightarrow> nat option" where
  "digit_val c =
     (let n = (of_char c :: nat) in if 48 \<le> n \<and> n \<le> 57 then Some (n - 48) else None)"

fun parse_digits :: "nat \<Rightarrow> string \<Rightarrow> nat option" where
  "parse_digits acc [] = Some acc"
| "parse_digits acc (c # cs) =
     (case digit_val c of None \<Rightarrow> None | Some d \<Rightarrow> parse_digits (acc * 10 + d) cs)"

definition py_int :: "string \<Rightarrow> exn + int" where
  "py_int s =
     (case s of
        [] \<Rightarrow> Inl ValueError
      | c # cs \<Rightarrow>
          if c = CHR ''-'' then
            (if cs = [] then Inl ValueError
             else case parse_digits 0 cs of
                    None \<Rightarrow> Inl ValueError
                  | Some n \<Rightarrow> Inr (- int n))
          else (case parse_digits 0 s of
                  None \<Rightarrow> Inl ValueError
                | Some n \<Rightarrow> Inr (int n)))"

text \<open>\<^verbatim>\<open>f"{search}"\<close> of an optional string: \<^verbatim>\<open>None\<close> prints as \<open>None\<close>.\<close>

definition str_opt :: "string option \<Rightarrow> string" where
  "str_opt s = (case s of None \<Rightarrow> ''None'' | Some x \<Rightarrow> x)"

text \<open>Truthiness of an optional string (\<^verbatim>\<open>if cached:\<close>, \<^verbatim>\<open>if search:\<close>).\<close>

definition truthy :: "string option \<Rightarrow> bool" where
  "truthy s = (case s of None \<Rightarrow> False | Some x \<Rightarrow> x \<noteq> [])"


section \<open>The shared Redis store (redis\_cache.py)\<close>

text \<open>
  The store maps a key to its string value and the instant at which it expires. Every
  write of this program is \<^verbatim>\<open>SET key value EX seconds\<close>; \<^verbatim>\<open>GET\<close> does not see a key
  whose expiry has passed; \<^verbatim>\<open>DEL key\<close> removes exactly the key it names (Redis does
  no pattern matching in \<^verbatim>\<open>DEL\<close>); \<^verbatim>\<open>SET\<close> with a non-positive \<^verbatim>\<open>EX\<close> is refused by
  the server.
\<close>

type_synonym store = "string \<rightharpoonup> (string \<times> int)"

definition redis_get :: "store \<Rightarrow> int \<Rightarrow> string \<Rightarrow> string option" where
  "redis_get st now k =
     (case st k of None \<Rightarrow> None | Some (v, e) \<Rightarrow> if now < e then Some v else None)"

definition redis_set :: "store \<Rightarrow> int \<Rightarrow> string \<Rightarrow> string \<Rightarrow> int \<Rightarrow> exn + store" where
  "redis_set st now k v ex =
     (if ex \<le> 0 then Inl ResponseError else Inr (st(k \<mapsto> (v, now + ex))))"

definition redis_delete :: "store \<Rightarrow> string \<Rightarrow> store" where
  "redis_delete st k = st(k := None)"

text \<open>
  A store call can fail (the server is unreachable or the call times out). The calls a
  request makes are named, and \<open>ok c\<close> says whether call \<open>c\<close> goes through.
\<close>

datatype store_call = Connect | Get | Set

definition store_up :: "store_call \<Rightarrow> bool" where
  "store_up c = True"

definition outage_at :: "store_call \<Rightarrow> store_call \<Rightarrow> bool" where
  "outage_at f c = (c \<noteq> f)"


section \<open>The rate limiter (rate\_limiter.py)\<close>

record RateLimiterMiddleware =
  rl_limit :: int
  rl_window :: int

record request =
  client :: "string option"

datatype response = Response string int | CallNext request

text \<open>
  \<^verbatim>\<open>dispatch\<close> up to and including \<^verbatim>\<open>await redis.get(window_key)\<close> (lines 13 to 19):
  the key of the current window and the count read under it.
\<close>

definition dispatch_read ::
  "RateLimiterMiddleware \<Rightarrow> (store_call \<Rightarrow> bool) \<Rightarrow> request \<Rightarrow> int \<Rightarrow> store
     \<Rightarrow> exn + (string \<times> string option)" where
  "dispatch_read self ok request now st =
     (if \<not> ok Connect then Inl ConnectionError
      else case client request of
        None \<Rightarrow> Inl AttributeError
      | Some client_ip \<Rightarrow>
          let key = ''rate:'' @ client_ip in
          if rl_window self = 0 then Inl ZeroDivisionError
          else
            let window_start = now - (now mod rl_window self);
                window_key = key @ '':'' @ str_int window_start
            in if \<not> ok Get then Inl ConnectionError
               else Inr (window_key, redis_get st now window_key))"

text \<open>
  The rest of \<^verbatim>\<open>dispatch\<close> (lines 20 to 28): the new count is computed from the count
  that was read, written back with \<^verbatim>\<open>SET\<close>, and compared with the limit.
\<close>

definition dispatch_answer ::
  "RateLimiterMiddleware \<Rightarrow> request \<Rightarrow> int \<Rightarrow> response" where
  "dispatch_answer self request count =
     (if count > rl_limit self then Response ''Too Many Requests'' 429
      else CallNext request)"

definition dispatch_write ::
  "RateLimiterMiddleware \<Rightarrow> (store_call \<Rightarrow> bool) \<Rightarrow> request \<Rightarrow> int \<Rightarrow> store
     \<Rightarrow> string \<times> string option \<Rightarrow> exn + (response \<times> store)" where
  "dispatch_write self ok request now st r =
     (case r of (window_key, count) \<Rightarrow>
        (case count of
           None \<Rightarrow>
             if \<not> ok Set then Inl ConnectionError
             else (case redis_set st now window_key (str_int 1) (rl_window self) of
                     Inl e \<Rightarrow> Inl e
                   | Inr st' \<Rightarrow> Inr (dispatch_answer self request 1, st'))
         | Some c \<Rightarrow>
             (case py_int c of
                Inl e \<Rightarrow> Inl e
              | Inr n \<Rightarrow>
                  let count = n + 1 in
                  if \<not> ok Set then Inl ConnectionError
                  else (case redis_set st now window_key (str_int count) (rl_window self) of
                          Inl e \<Rightarrow> Inl e
                        | Inr st' \<Rightarrow> Inr (dispatch_answer self request count, st')))))"

definition dispatch ::
  "RateLimiterMiddleware \<Rightarrow> (store_call \<Rightarrow> bool) \<Rightarrow> request \<Rightarrow> int \<Rightarrow> store
     \<Rightarrow> exn + (response \<times> store)" where
  "dispatch self ok request now st =
     (case dispatch_read self ok request now st of
        Inl e \<Rightarrow> Inl e
      | Inr r \<Rightarrow> dispatch_write self ok request now st r)"

text \<open>
  One client issuing requests one after the other, at the given clock readings. A
  request that raises leaves the store as it was.
\<close>

fun serve ::
  "RateLimiterMiddleware \<Rightarrow> request \<Rightarrow> int list \<Rightarrow> store \<Rightarrow> (exn + response) list \<times> store" where
  "serve self request [] st = ([], st)"
| "serve self request (now # later) st =
     (case dispatch self store_up request now st of
        Inl e \<Rightarrow> (case serve self request later st of (rs, st') \<Rightarrow> (Inl e # rs, st'))
      | Inr (resp, st1) \<Rightarrow>
          (case serve self request later st1 of (rs, st') \<Rightarrow> (Inr resp # rs, st')))"

text \<open>
  Two handlers of the event loop racing on one key. A coroutine can be suspended at
  each \<^verbatim>\<open>await\<close>, so the second handler's \<^verbatim>\<open>GET\<close> can run between the first
  handler's \<^verbatim>\<open>GET\<close> and its \<^verbatim>\<open>SET\<close>.
\<close>

definition dispatch_race ::
  "RateLimiterMiddleware \<Rightarrow> request \<Rightarrow> request \<Rightarrow> int \<Rightarrow> store
     \<Rightarrow> exn + ((response \<times> response) \<times> store)" where
  "dispatch_race self request1 request2 now st =
     (case dispatch_read self store_up request1 now st of
        Inl e \<Rightarrow> Inl e
      | Inr r1 \<Rightarrow>
          (case dispatch_read self store_up request2 now st of
             Inl e \<Rightarrow> Inl e
           | Inr r2 \<Rightarrow>
               (case dispatch_write self store_up request1 now st r1 of
                  Inl e \<Rightarrow> Inl e
                | Inr (resp1, st1) \<Rightarrow>
                    (case dispatch_write self store_up request2 now st1 r2 of
                       Inl e \<Rightarrow> Inl e
                     | Inr (resp2, st2) \<Rightarrow> Inr ((resp1, resp2), st2)))))"


section \<open>The record store (schemas.py)\<close>

text \<open>
  The tables \<^verbatim>\<open>user\<close> and \<^verbatim>\<open>note\<close> as lists of rows, with the next value of each
  primary-key sequence. \<^verbatim>\<open>db.get(Note, note_id)\<close> is the row with that primary key;
  an update or a delete acts on the row that \<^verbatim>\<open>db.get\<close> returned.
\<close>

record User =
  u_id :: int
  u_username :: string
  u_password :: string
  u_role :: string

record Note =
  n_id :: int
  n_title :: string
  n_content :: string
  n_owner_id :: int

record UserCreate =
  uc_username :: string
  uc_password :: string

record NoteCreate =
  nc_title :: string
  nc_content :: string

record NoteUpdate =
  nu_title :: "string option"
  nu_content :: "string option"

record database =
  db_users :: "User list"
  db_notes :: "Note list"
  db_user_seq :: int
  db_note_seq :: int

definition db_get :: "Note list \<Rightarrow> int \<Rightarrow> Note option" where
  "db_get rows note_id = find (\<lambda>n. n_id n = note_id) rows"

fun replace_row :: "Note list \<Rightarrow> int \<Rightarrow> Note \<Rightarrow> Note list" where
  "replace_row [] note_id new = []"
| "replace_row (r # rs) note_id new =
     (if n_id r = note_id then new # rs else r # replace_row rs note_id new)"

fun delete_row :: "Note list \<Rightarrow> int \<Rightarrow> Note list" where
  "delete_row [] note_id = []"
| "delete_row (r # rs) note_id =
     (if n_id r = note_id then rs else r # delete_row rs note_id)"


section \<open>Tokens and the current user (data.py)\<close>

text \<open>
  The JSON values of a token's claims and of a request body: strings and integers,
  the kinds this program issues and reads.
\<close>

datatype json = JStr string | JInt int

text \<open>
  A bearer string either does not parse as a signed token (\<open>Malformed\<close>) or carries
  the header's algorithm, the claims and the signature. The keyed hash of the signing
  scheme is the parameter \<open>hmac\<close>: \<open>hmac key (alg, claims)\<close> is the signature of the
  header and claims under \<open>key\<close>. \<^verbatim>\<open>jwt.encode\<close> and \<^verbatim>\<open>jwt.decode\<close> are the library's
  (python-jose): decode checks the algorithm, the signature, then the claims; a token
  is expired when its \<^verbatim>\<open>exp\<close> is smaller than the clock reading
  (\<^verbatim>\<open>if exp < (now - leeway)\<close>, leeway 0), and \<^verbatim>\<open>sub\<close>, when present, must be a string.
\<close>

datatype 's token = Malformed string | Token string "(string \<times> json) list" 's


definition jwt_encode ::
  "(string \<Rightarrow> string \<times> (string \<times> json) list \<Rightarrow> 's) \<Rightarrow> (string \<times> json) list \<Rightarrow> string \<Rightarrow> string
     \<Rightarrow> 's token" where
  "jwt_encode hmac claims key algorithm = Token algorithm claims (hmac key (algorithm, claims))"





definition ALGORITHM :: string where
  "ALGORITHM = ''HS256''"

definition ACCESS_TOKEN_EXPIRE_MINUTES :: int where
  "ACCESS_TOKEN_EXPIRE_MINUTES = 30"

text \<open>
  \<^verbatim>\<open>create_access_token\<close>. The module's \<^verbatim>\<open>SECRET_KEY\<close> is the parameter \<open>secret_key\<close>,
  \<^verbatim>\<open>datetime.now(UTC)\<close> is \<open>now\<close> and a \<^verbatim>\<open>timedelta\<close> is a number of seconds; a zero
  \<^verbatim>\<open>timedelta\<close> is false in \<^verbatim>\<open>if expires_delta:\<close>.
\<close>

definition create_access_token ::
  "(string \<Rightarrow> string \<times> (string \<times> json) list \<Rightarrow> 's) \<Rightarrow> string \<Rightarrow> (string \<times> json) list \<Rightarrow> int option
     \<Rightarrow> int \<Rightarrow> 's token" where
  "create_access_token hmac secret_key data expires_delta now =
     (let to_encode = data;
          expire = (case expires_delta of
                      None \<Rightarrow> now + 30 * 60
                    | Some d \<Rightarrow> if d \<noteq> 0 then now + d else now + 30 * 60);
          to_encode = AList.update ''exp'' (JInt expire) to_encode
      in jwt_encode hmac to_encode secret_key ALGORITHM)"

text \<open>
  \<^verbatim>\<open>get_user\<close> sends its query through the database driver, which refuses a string
  that holds a NUL character with a \<^verbatim>\<open>ValueError\<close>; any other username gives the first
  row with that username, or none.
\<close>

definition get_user :: "string \<Rightarrow> database \<Rightarrow> exn + User option" where
  "get_user username db =
     (if CHR 0x00 \<in> set username then Inl ValueError
      else Inr (find (\<lambda>u. u_username u = username) (db_users db)))"





section \<open>Roles, registration and login (main.py)\<close>

definition role_checker :: "string \<Rightarrow> User \<Rightarrow> exn + User" where
  "role_checker role user =
     (if u_role user \<noteq> role then Inl (HTTPException 403 ''Operation not permitted'' [])
      else Inr user)"

definition require_role :: "string \<Rightarrow> User \<Rightarrow> exn + User" where
  "require_role role = role_checker role"

text \<open>
  The request body of \<^verbatim>\<open>/register/\<close> is validated against \<^verbatim>\<open>UserCreate\<close>: both
  fields must be strings, and any other field of the body is dropped.
\<close>

definition UserCreate_validate :: "(string \<times> json) list \<Rightarrow> exn + UserCreate" where
  "UserCreate_validate body =
     (case map_of body ''username'' of
        Some (JStr username) \<Rightarrow>
          (case map_of body ''password'' of
             Some (JStr password) \<Rightarrow> Inr \<lparr>uc_username = username, uc_password = password\<rparr>
           | _ \<Rightarrow> Inl RequestValidationError)
      | _ \<Rightarrow> Inl RequestValidationError)"

text \<open>\<^verbatim>\<open>register\<close>; the password hasher (passlib) is the parameter \<open>hash_password\<close>.\<close>

definition register :: "(string \<Rightarrow> string) \<Rightarrow> UserCreate \<Rightarrow> database \<Rightarrow> exn + (User \<times> database)" where
  "register hash_password user db =
     (case get_user (uc_username user) db of
        Inl e \<Rightarrow> Inl e
      | Inr (Some db_user) \<Rightarrow> Inl (HTTPException 400 ''Username already registered'' [])
      | Inr None \<Rightarrow>
          let password = hash_password (uc_password user);
              new_user = \<lparr>u_id = db_user_seq db, u_username = uc_username user,
                          u_password = password, u_role = ''user''\<rparr>
          in Inr (new_user,
                  db\<lparr>db_users := db_users db @ [new_user], db_user_seq := db_user_seq db + 1\<rparr>))"

definition register_endpoint ::
  "(string \<Rightarrow> string) \<Rightarrow> (string \<times> json) list \<Rightarrow> database \<Rightarrow> exn + (User \<times> database)" where
  "register_endpoint hash_password body db =
     (case UserCreate_validate body of
        Inl e \<Rightarrow> Inl e
      | Inr user \<Rightarrow> register hash_password user db)"

text \<open>\<^verbatim>\<open>login\<close>; the password check (passlib) is the parameter \<open>verify_password\<close>.\<close>

definition login ::
  "(string \<Rightarrow> string \<times> (string \<times> json) list \<Rightarrow> 's) \<Rightarrow> (string \<Rightarrow> string \<Rightarrow> bool) \<Rightarrow> string
     \<Rightarrow> UserCreate \<Rightarrow> database \<Rightarrow> int \<Rightarrow> exn + 's token" where
  "login hmac verify_password secret_key credentials db now =
     (case get_user (uc_username credentials) db of
        Inl e \<Rightarrow> Inl e
      | Inr None \<Rightarrow>
          Inl (HTTPException 401 ''Incorrect username or password''
                 [(''WWW-Authenticate'', ''Bearer'')])
      | Inr (Some user) \<Rightarrow>
          if \<not> verify_password (uc_password credentials) (u_password user) then
            Inl (HTTPException 401 ''Incorrect username or password''
                   [(''WWW-Authenticate'', ''Bearer'')])
          else
            let access_token_expires = ACCESS_TOKEN_EXPIRE_MINUTES * 60;
                access_token =
                  create_access_token hmac secret_key [(''sub'', JStr (u_username user))]
                    (Some access_token_expires) now
            in Inr access_token)"


section \<open>The note handlers (notes.py)\<close>

text \<open>
  The library functions the handlers call are parameters: \<^verbatim>\<open>json.dumps\<close> of the
  listed rows, \<^verbatim>\<open>json.loads\<close> of a cached string, and the database's \<^verbatim>\<open>ILIKE\<close>
  (\<open>ilike title pattern\<close>).
\<close>

record library =
  json_dumps :: "Note list \<Rightarrow> string"
  json_loads :: "string \<Rightarrow> exn + Note list"
  ilike :: "string \<Rightarrow> string \<Rightarrow> bool"

text \<open>
  The two key formats of the handlers: \<^verbatim>\<open>f"notes:{current_user.id}:{skip}:{limit}:{search}"\<close>,
  under which \<^verbatim>\<open>get_notes\<close> caches a listing, and \<^verbatim>\<open>f"notes:{current_user.id}:*"\<close>,
  which \<^verbatim>\<open>update_note\<close> and \<^verbatim>\<open>delete_note\<close> pass to \<^verbatim>\<open>redis.delete\<close>.
\<close>

definition listing_key :: "int \<Rightarrow> int \<Rightarrow> int \<Rightarrow> string option \<Rightarrow> string" where
  "listing_key owner skip limit search =
     ''notes:'' @ str_int owner @ '':'' @ str_int skip @ '':'' @ str_int limit @ '':''
       @ str_opt search"

definition owner_pattern :: "int \<Rightarrow> string" where
  "owner_pattern owner = ''notes:'' @ str_int owner @ '':*''"

text \<open>\<^verbatim>\<open>create_note\<close> adds the row and returns it. It makes no call to the Redis store.\<close>

definition create_note :: "NoteCreate \<Rightarrow> User \<Rightarrow> database \<Rightarrow> Note \<times> database" where
  "create_note note current_user db =
     (let new_note = \<lparr>n_id = db_note_seq db, n_title = nc_title note,
                      n_content = nc_content note, n_owner_id = u_id current_user\<rparr>
      in (new_note,
          db\<lparr>db_notes := db_notes db @ [new_note], db_note_seq := db_note_seq db + 1\<rparr>))"

text \<open>
  \<^verbatim>\<open>get_notes\<close>: the cached string when there is one (\<^verbatim>\<open>if cached:\<close>, so an empty
  string counts as none), else \<open>miss\<close>: the rows of the current user, filtered by
  \<^verbatim>\<open>search\<close>, then \<^verbatim>\<open>OFFSET skip LIMIT limit\<close> (which the database refuses when
  negative), cached for 60 seconds.
\<close>

definition get_notes ::
  "library \<Rightarrow> User \<Rightarrow> database \<Rightarrow> int \<Rightarrow> int \<Rightarrow> string option \<Rightarrow> int \<Rightarrow> store
     \<Rightarrow> (exn + Note list) \<times> store" where
  "get_notes lib current_user db skip limit search now redis =
     (let cache_key = listing_key (u_id current_user) skip limit search;
          cached = redis_get redis now cache_key;
          miss =
            (let query = filter (\<lambda>n. n_owner_id n = u_id current_user) (db_notes db);
                 query = (if truthy search
                          then filter (\<lambda>n. ilike lib (n_title n) (''%'' @ str_opt search @ ''%''))
                                 query
                          else query)
             in if skip < 0 \<or> limit < 0 then (Inl DBAPIError, redis)
                else
                  let notes = take (nat limit) (drop (nat skip) query) in
                  (case redis_set redis now cache_key (json_dumps lib notes) 60 of
                     Inl e \<Rightarrow> (Inl e, redis)
                   | Inr redis' \<Rightarrow> (Inr notes, redis')))
      in case cached of
           None \<Rightarrow> miss
         | Some s \<Rightarrow> if s \<noteq> [] then (json_loads lib s, redis) else miss)"

definition get_note :: "int \<Rightarrow> User \<Rightarrow> database \<Rightarrow> exn + Note" where
  "get_note note_id current_user db =
     (case db_get (db_notes db) note_id of
        None \<Rightarrow> Inl (HTTPException 404 ''Note not found'' [])
      | Some note \<Rightarrow>
          if n_owner_id note \<noteq> u_id current_user then
            Inl (HTTPException 403 ''Not authorized to access this note'' [])
          else Inr note)"

text \<open>
  \<^verbatim>\<open>update_note\<close> and \<^verbatim>\<open>delete_note\<close> return the response, the record store and
  the Redis store. A handler that raises has not committed, so the record store is
  unchanged; what it did to the Redis store before raising stays done.
\<close>

definition update_note ::
  "int \<Rightarrow> NoteUpdate \<Rightarrow> User \<Rightarrow> database \<Rightarrow> store \<Rightarrow> (exn + Note) \<times> database \<times> store" where
  "update_note note_id note_update current_user db redis =
     (let redis = redis_delete redis (owner_pattern (u_id current_user)) in
      case db_get (db_notes db) note_id of
        None \<Rightarrow> (Inl (HTTPException 404 ''Note not found'' []), db, redis)
      | Some note \<Rightarrow>
          if n_owner_id note \<noteq> u_id current_user then
            (Inl (HTTPException 403 ''Not authorized to update this note'' []), db, redis)
          else
            let note = (case nu_title note_update of
                          None \<Rightarrow> note
                        | Some title \<Rightarrow> note\<lparr>n_title := title\<rparr>);
                note = (case nu_content note_update of
                          None \<Rightarrow> note
                        | Some content \<Rightarrow> note\<lparr>n_content := content\<rparr>);
                db = db\<lparr>db_notes := replace_row (db_notes db) note_id note\<rparr>;
                redis = redis_delete redis (owner_pattern (u_id current_user))
            in (Inr note, db, redis))"

definition delete_note ::
  "int \<Rightarrow> User \<Rightarrow> database \<Rightarrow> store \<Rightarrow> (exn + unit) \<times> database \<times> store" where
  "delete_note note_id current_user db redis =
     (case db_get (db_notes db) note_id of
        None \<Rightarrow> (Inl (HTTPException 404 ''Note not found'' []), db, redis)
      | Some note \<Rightarrow>
          if n_owner_id note \<noteq> u_id current_user then
            (Inl (HTTPException 403 ''Not authorized to delete this note'' []), db, redis)
          else
            let db = db\<lparr>db_notes := delete_row (db_notes db) note_id\<rparr>;
                redis = redis_delete redis (owner_pattern (u_id current_user))
            in (Inr (), db, redis))"


section \<open>Requests over time\<close>

text \<open>
  A run of the service is a list of requests: a mutation of notes by some user, or a
  listing by some user at some clock reading. \<open>run\<close> handles them in order and
  collects every listing's response with the id of the user who asked.
\<close>

datatype mutation = Create NoteCreate | Update int NoteUpdate | Delete int


fun mutate :: "User \<Rightarrow> mutation \<Rightarrow> database \<times> store \<Rightarrow> database \<times> store" where
  "mutate u (Create note) (db, redis) = (snd (create_note note u db), redis)"
| "mutate u (Update note_id note_update) (db, redis) = snd (update_note note_id note_update u db redis)"
| "mutate u (Delete note_id) (db, redis) = snd (delete_note note_id u db redis)"






text \<open>
  What user \<open>b\<close> can see of a state: \<open>b\<close>'s own rows, in table order, and the cache
  entries under \<open>b\<close>'s listing keys.
\<close>



definition same_view :: "int \<Rightarrow> database \<times> store \<Rightarrow> database \<times> store \<Rightarrow> bool" where
  "same_view b s t =
     (filter (\<lambda>n. n_owner_id n = b) (db_notes (fst s)) = filter (\<lambda>n. n_owner_id n = b) (db_notes (fst t))
      \<and> (\<forall>skip limit search.
            snd s (listing_key b skip limit search) = snd t (listing_key b skip limit search)))"



definition amina :: User where
  "amina = \<lparr>u_id = 1, u_username = ''amina'', u_password = ''$2b$12$hash'', u_role = ''user''\<rparr>"

definition root_user :: User where
  "root_user = \<lparr>u_id = 2, u_username = ''root'', u_password = ''$2b$12$hash'', u_role = ''admin''\<rparr>"

definition db0 :: database where
  "db0 = \<lparr>db_users = [amina, root_user], db_notes = [], db_user_seq = 3, db_note_seq = 1\<rparr>"

definition stub_hash :: "string \<Rightarrow> string" where
  "stub_hash password = ''$2b$'' @ password"


text \<open>
  Stand-ins for the library functions in the concrete runs: the listing is written as
  the ids of its rows, and only the empty listing is read back.
\<close>

definition demo_lib :: library where
  "demo_lib =
     \<lparr>json_dumps = (\<lambda>notes. ''['' @ concat (map (\<lambda>n. ''{id: '' @ str_int (n_id n) @ ''}'') notes) @ '']''),
      json_loads = (\<lambda>s. if s = ''[]'' then Inr [] else Inl ValueError),
      ilike = (\<lambda>title pattern. True)\<rparr>"

text \<open>Notes and requests of the concrete runs.\<close>

definition shopping :: Note where
  "shopping = \<lparr>n_id = 1, n_title = ''shopping'', n_content = ''milk'', n_owner_id = 1\<rparr>"

definition secrets :: Note where
  "secrets = \<lparr>n_id = 2, n_title = ''secrets'', n_content = ''root only'', n_owner_id = 2\<rparr>"

definition db1 :: database where
  "db1 = \<lparr>db_users = [amina, root_user], db_notes = [shopping, secrets],
          db_user_seq = 3, db_note_seq = 3\<rparr>"










text \<open>Vocabulary for the theorems on the rate limiter.\<close>

text \<open>The key \<^verbatim>\<open>f"rate:{client_ip}:{window_start}"\<close> that \<^verbatim>\<open>dispatch\<close> builds.\<close>

definition window_key :: "string \<Rightarrow> int \<Rightarrow> string" where
  "window_key client_ip window_start = ''rate:'' @ client_ip @ '':'' @ str_int window_start"

text \<open>
  The store holds count \<open>c\<close> under key \<open>k\<close> (no entry at all when \<open>c = 0\<close>), and the
  entry lives at least until \<open>horizon\<close>.
\<close>

definition counted :: "store \<Rightarrow> string \<Rightarrow> int \<Rightarrow> int \<Rightarrow> bool" where
  "counted st k c horizon =
     (if c = 0 then st k = None
      else \<exists>e. st k = Some (str_int c, e) \<and> horizon \<le> e)"

definition office_client :: request where
  "office_client = \<lparr>client = Some ''10.0.0.1''\<rparr>"


section \<open>Lemmas on the Python values\<close>

lemma digit_val_digit_char: "d < 10 \<Longrightarrow> digit_val (digit_char d) = Some d"
proof -
  assume "d < 10"
  then have "d = 0 \<or> d = 1 \<or> d = 2 \<or> d = 3 \<or> d = 4 \<or> d = 5 \<or> d = 6 \<or> d = 7 \<or> d = 8 \<or> d = 9"
    by arith
  then show ?thesis
    by (auto simp: digit_val_def digit_char_def)
qed

lemma parse_digits_append:
  "parse_digits acc (xs @ ys) =
     (case parse_digits acc xs of None \<Rightarrow> None | Some a \<Rightarrow> parse_digits a ys)"
  by (induction xs arbitrary: acc) (auto split: option.splits)

lemma parse_digits_digits: "parse_digits 0 (digits n) = Some n"
proof (induction n rule: digits.induct)
  case (1 n)
  show ?case
  proof (cases "n < 10")
    case True
    then show ?thesis by (simp add: digits.simps[of n] digit_val_digit_char)
  next
    case False
    with 1 have "parse_digits 0 (digits (n div 10)) = Some (n div 10)" by simp
    with False show ?thesis
      by (simp add: digits.simps[of n] parse_digits_append digit_val_digit_char)
  qed
qed

lemma digits_nonempty: "digits n \<noteq> []"
  by (subst digits.simps) simp

lemma digit_char_not_minus: "d < 10 \<Longrightarrow> digit_char d \<noteq> CHR ''-''"
  using digit_val_digit_char[of d] by (auto simp: digit_val_def)

lemma hd_digits_not_minus: "hd (digits n) \<noteq> CHR ''-''"
proof (induction n rule: digits.induct)
  case (1 n)
  show ?case
  proof (cases "n < 10")
    case True
    then show ?thesis by (simp add: digits.simps[of n] digit_char_not_minus)
  next
    case False
    with 1 show ?thesis by (simp add: digits.simps[of n] digits_nonempty)
  qed
qed

lemma py_int_str_int: "py_int (str_int i) = Inr i"
proof (cases "i < 0")
  case True
  then show ?thesis
    by (simp add: py_int_def str_int_def parse_digits_digits digits_nonempty)
next
  case False
  obtain c cs where d: "digits (nat i) = c # cs"
    using digits_nonempty[of "nat i"] by (cases "digits (nat i)") auto
  with hd_digits_not_minus[of "nat i"] have "c \<noteq> CHR ''-''" by simp
  with False d parse_digits_digits[of "nat i"] show ?thesis
    by (simp add: py_int_def str_int_def)
qed

lemma str_int_inj: "str_int a = str_int b \<Longrightarrow> a = b"
  by (metis py_int_str_int sum.inject(2))


section \<open>The rate limiter: fixed-window counting\<close>

lemma bucket_bounds:
  fixes now w :: int
  assumes "0 < w" "now - now mod w = ws"
  shows "ws \<le> now" "now < ws + w"
  using assms pos_mod_bound[of w now] pos_mod_sign[of w now] by linarith+

lemma redis_get_counted:
  assumes "counted st k c (ws + w)" "now < ws + w"
  shows "redis_get st now k = (if c = 0 then None else Some (str_int c))"
  using assms by (auto simp: counted_def redis_get_def split: if_splits)

lemma dispatch_counted:
  assumes cl: "client request = Some ip"
    and w: "0 < rl_window self"
    and b: "now - now mod rl_window self = ws"
    and c: "counted st (window_key ip ws) c (ws + rl_window self)" "0 \<le> c"
  shows "dispatch self store_up request now st =
           Inr (dispatch_answer self request (c + 1),
                st(window_key ip ws \<mapsto> (str_int (c + 1), now + rl_window self)))"
proof -
  have lt: "now < ws + rl_window self" using bucket_bounds[OF w b] by simp
  have g: "redis_get st now (window_key ip ws) = (if c = 0 then None else Some (str_int c))"
    using redis_get_counted[OF c(1) lt] .
  have r: "dispatch_read self store_up request now st =
             Inr (window_key ip ws, if c = 0 then None else Some (str_int c))"
    using cl w b g by (simp add: dispatch_read_def store_up_def window_key_def Let_def)
  show ?thesis
    using w by (simp add: dispatch_def r dispatch_write_def store_up_def redis_set_def
        py_int_str_int Let_def)
qed

lemma counted_after:
  assumes "0 < w" "now - now mod w = ws" "0 \<le> c"
  shows "counted (st(k \<mapsto> (str_int (c + 1), now + w))) k (c + 1) (ws + w)"
  using assms bucket_bounds[of w now ws] by (simp add: counted_def)

lemma serve_counted:
  assumes cl: "client request = Some ip"
    and w: "0 < rl_window self"
  shows "\<forall>t\<in>set ts. t - t mod rl_window self = ws \<Longrightarrow>
         counted st (window_key ip ws) c (ws + rl_window self) \<Longrightarrow> 0 \<le> c \<Longrightarrow>
         fst (serve self request ts st) =
           map (\<lambda>i. Inr (dispatch_answer self request (c + 1 + int i))) [0..<length ts]
         \<and> counted (snd (serve self request ts st)) (window_key ip ws) (c + int (length ts))
             (ws + rl_window self)
         \<and> (\<forall>k. k \<noteq> window_key ip ws \<longrightarrow> snd (serve self request ts st) k = st k)"
proof (induction ts arbitrary: st c)
  case Nil
  then show ?case by simp
next
  case (Cons t ts)
  let ?st1 = "st(window_key ip ws \<mapsto> (str_int (c + 1), t + rl_window self))"
  have b: "t - t mod rl_window self = ws" using Cons.prems(1) by simp
  have d: "dispatch self store_up request t st = Inr (dispatch_answer self request (c + 1), ?st1)"
    using dispatch_counted[OF cl w b Cons.prems(2) Cons.prems(3)] .
  have c1: "counted ?st1 (window_key ip ws) (c + 1) (ws + rl_window self)"
    using counted_after[OF w b Cons.prems(3)] .
  have p1: "\<forall>t\<in>set ts. t - t mod rl_window self = ws" using Cons.prems(1) by simp
  have c0: "0 \<le> c + 1" using Cons.prems(3) by simp
  note ih = Cons.IH[OF p1 c1 c0]
  have s: "serve self request (t # ts) st =
             (Inr (dispatch_answer self request (c + 1)) # fst (serve self request ts ?st1),
              snd (serve self request ts ?st1))"
    by (simp add: d case_prod_beta)
  have m: "map (\<lambda>i. Inr (dispatch_answer self request (c + 1 + int i))) [0..<length (t # ts)]
         = Inr (dispatch_answer self request (c + 1))
           # map (\<lambda>i. (Inr (dispatch_answer self request (c + 1 + 1 + int i)) :: exn + response)) [0..<length ts]"
    by (simp add: upt_rec[of 0] map_Suc_upt[symmetric] add.commute add.left_commute del: upt_Suc)
  have l: "c + int (length (t # ts)) = c + 1 + int (length ts)" by simp
  have k: "\<forall>k. k \<noteq> window_key ip ws \<longrightarrow> ?st1 k = st k" by simp
  show ?case
    unfolding s m l fst_conv snd_conv using ih k by metis
qed


lemma window_key_inj: "window_key ip a = window_key ip b \<Longrightarrow> a = b"
  by (simp add: window_key_def str_int_inj)

lemma next_bucket:
  fixes t w :: int
  shows "(t + w) - (t + w) mod w = (t - t mod w) + w"
  by simp

lemma serve_in_one_window:
  assumes cl: "client request = Some ip"
    and w: "0 < rl_window self"
    and bucket: "\<forall>t\<in>set ts. t - t mod rl_window self = ws"
    and fresh: "st (window_key ip ws) = None"
  shows "fst (serve self request ts st) =
           map (\<lambda>i. Inr (dispatch_answer self request (1 + int i))) [0..<length ts]"
    and "\<forall>k. k \<noteq> window_key ip ws \<longrightarrow> snd (serve self request ts st) k = st k"
proof -
  have c: "counted st (window_key ip ws) 0 (ws + rl_window self)"
    using fresh by (simp add: counted_def)
  from serve_counted[OF cl w bucket c]
  show "fst (serve self request ts st) =
           map (\<lambda>i. Inr (dispatch_answer self request (1 + int i))) [0..<length ts]"
    and "\<forall>k. k \<noteq> window_key ip ws \<longrightarrow> snd (serve self request ts st) k = st k"
    by simp_all
qed

text \<open>
  Claim C2. One client issues requests one after the other, all in the same
  clock-aligned window, starting from a store with no counter for that window. With a
  window of 60 seconds and a limit of 5, the first five of six requests are forwarded
  and the sixth gets the 429 response; in general request number \<open>i\<close> (from 0) is
  forwarded exactly when \<open>i < limit\<close>. When the limit is at least 1, a request made
  one window length after any of them falls into the next window and is forwarded.
\<close>

theorem rate_limiter_fixed_window:
  assumes cl: "client request = Some ip"
    and w: "0 < rl_window self"
    and bucket: "\<forall>t\<in>set ts. t - t mod rl_window self = ws"
    and fresh: "st (window_key ip ws) = None"
    and fresh_next: "st (window_key ip (ws + rl_window self)) = None"
  shows "(rl_window self = 60 \<and> rl_limit self = 5 \<and> length ts = 6 \<longrightarrow>
            fst (serve self request ts st) =
              [Inr (CallNext request), Inr (CallNext request), Inr (CallNext request),
               Inr (CallNext request), Inr (CallNext request),
               Inr (Response ''Too Many Requests'' 429)])
       \<and> (\<forall>i<length ts. fst (serve self request ts st) ! i =
            Inr (if int i < rl_limit self then CallNext request
                 else Response ''Too Many Requests'' 429))
       \<and> (1 \<le> rl_limit self \<longrightarrow>
            (\<forall>t\<in>set ts. \<exists>st'.
               dispatch self store_up request (t + rl_window self)
                 (snd (serve self request ts st)) = Inr (CallNext request, st')))"
proof (intro conjI impI allI ballI)
  note f = serve_in_one_window(1)[where st = st, OF cl w bucket fresh]
  {
    assume a: "rl_window self = 60 \<and> rl_limit self = 5 \<and> length ts = 6"
    have "[0..<6] = [0, 1, 2, 3, 4, 5]" by (simp add: upt_rec)
    with a show "fst (serve self request ts st) =
              [Inr (CallNext request), Inr (CallNext request), Inr (CallNext request),
               Inr (CallNext request), Inr (CallNext request),
               Inr (Response ''Too Many Requests'' 429)]"
      by (simp add: f dispatch_answer_def)
  }
  {
    fix i assume "i < length ts"
    then show "fst (serve self request ts st) ! i =
            Inr (if int i < rl_limit self then CallNext request
                 else Response ''Too Many Requests'' 429)"
      by (auto simp: f dispatch_answer_def)
  }
  {
    fix t assume l: "1 \<le> rl_limit self" and t: "t \<in> set ts"
    let ?st = "snd (serve self request ts st)"
    let ?w = "rl_window self"
    have ne: "window_key ip (ws + ?w) \<noteq> window_key ip ws"
      using w window_key_inj[of ip "ws + ?w" ws] by auto
    have "?st (window_key ip (ws + ?w)) = None"
      using serve_in_one_window(2)[where st = st, OF cl w bucket fresh] ne fresh_next by simp
    then have c: "counted ?st (window_key ip (ws + ?w)) 0 (ws + ?w + ?w)"
      by (simp add: counted_def)
    have b: "(t + ?w) - (t + ?w) mod ?w = ws + ?w"
      using bucket t by simp
    from dispatch_counted[OF cl w b c] l
    show "\<exists>st'. dispatch self store_up request (t + ?w) ?st = Inr (CallNext request, st')"
      by (simp add: dispatch_answer_def)
  }
qed

theorem rate_limiter_fixed_window_witness:
  "fst (serve \<lparr>rl_limit = 5, rl_window = 60\<rparr> office_client [120, 125, 130, 140, 150, 179] Map.empty) =
     [Inr (CallNext office_client), Inr (CallNext office_client), Inr (CallNext office_client),
      Inr (CallNext office_client), Inr (CallNext office_client),
      Inr (Response ''Too Many Requests'' 429)]
   \<and> (\<exists>st'. dispatch \<lparr>rl_limit = 5, rl_window = 60\<rparr> store_up office_client 180
         (snd (serve \<lparr>rl_limit = 5, rl_window = 60\<rparr> office_client [120, 125, 130, 140, 150, 179]
                Map.empty)) = Inr (CallNext office_client, st'))"
  using rate_limiter_fixed_window[of office_client "''10.0.0.1''" "\<lparr>rl_limit = 5, rl_window = 60\<rparr>"
      "[120, 125, 130, 140, 150, 179]" 120 Map.empty]
  by (simp add: office_client_def)

text \<open>
  Claim C4, as the code has it. When a store call of \<^verbatim>\<open>dispatch\<close> fails, the request is
  not forwarded, but no 429 response is produced either: \<^verbatim>\<open>dispatch\<close> has no handler
  for the error, which leaves the middleware as an exception.
\<close>

theorem dispatch_store_failure_raises:
  assumes "\<not> ok Connect \<or> \<not> ok Get \<or> \<not> ok Set"
  shows "(\<exists>e. dispatch self ok request now st = Inl e)
       \<and> (\<forall>st'. dispatch self ok request now st \<noteq> Inr (Response ''Too Many Requests'' 429, st'))
       \<and> (\<forall>st'. dispatch self ok request now st \<noteq> Inr (CallNext request, st'))"
  using assms
  by (auto simp: dispatch_def dispatch_read_def dispatch_write_def Let_def
      split: option.splits sum.splits)

theorem dispatch_store_failure_raises_witness:
  "(\<exists>e. dispatch \<lparr>rl_limit = 5, rl_window = 60\<rparr> (outage_at Set) office_client 120 Map.empty = Inl e)
   \<and> (\<forall>st'. dispatch \<lparr>rl_limit = 5, rl_window = 60\<rparr> (outage_at Set) office_client 120 Map.empty
          \<noteq> Inr (Response ''Too Many Requests'' 429, st'))
   \<and> (\<forall>st'. dispatch \<lparr>rl_limit = 5, rl_window = 60\<rparr> (outage_at Set) office_client 120 Map.empty
          \<noteq> Inr (CallNext office_client, st'))"
  using dispatch_store_failure_raises[of "outage_at Set" "\<lparr>rl_limit = 5, rl_window = 60\<rparr>"
      office_client 120 Map.empty]
  by (simp add: outage_at_def)

theorem dispatch_store_outage_counterexample:
  "dispatch \<lparr>rl_limit = 5, rl_window = 60\<rparr> (outage_at Get) office_client 120 Map.empty
     = Inl ConnectionError"
  by (simp add: dispatch_def dispatch_read_def outage_at_def office_client_def)



section \<open>Tokens, roles and registration\<close>










text \<open>
  Claim C6. \<^verbatim>\<open>require_role(role)\<close> answers 403 exactly when the user's role differs
  from \<open>role\<close>, by equality of the two strings, and passes the user through otherwise;
  so a user whose role is not \<open>admin\<close> is always refused where \<open>admin\<close> is required.
\<close>

theorem require_role_strict_equality:
  "require_role role user =
     (if u_role user = role then Inr user
      else Inl (HTTPException 403 ''Operation not permitted'' []))
   \<and> ((require_role role user = Inl (HTTPException 403 ''Operation not permitted'' []))
        = (u_role user \<noteq> role))
   \<and> (u_role user \<noteq> ''admin'' \<longrightarrow>
        require_role ''admin'' user = Inl (HTTPException 403 ''Operation not permitted'' []))"
  by (simp add: require_role_def role_checker_def)

theorem require_role_strict_equality_witness:
  "require_role ''admin'' amina = Inl (HTTPException 403 ''Operation not permitted'' [])
   \<and> require_role ''admin'' root_user = Inr root_user
   \<and> require_role ''user'' root_user = Inl (HTTPException 403 ''Operation not permitted'' [])"
  using require_role_strict_equality[of "''admin''" amina]
    require_role_strict_equality[of "''admin''" root_user]
    require_role_strict_equality[of "''user''" root_user]
  by (simp add: amina_def root_user_def)

text \<open>
  Claim C10. Whatever the request body holds, a registration that succeeds adds one
  row to the user table, and the role of that row is \<open>user\<close>; every row of the table
  was there before or has the role \<open>user\<close>.
\<close>

theorem register_role_is_user:
  assumes "register_endpoint hash_password body db = Inr (new_user, db')"
  shows "u_role new_user = ''user''
       \<and> db_users db' = db_users db @ [new_user]
       \<and> (\<forall>u \<in> set (db_users db'). u \<in> set (db_users db) \<or> u_role u = ''user'')
       \<and> (\<forall>user u db''. register hash_password user db = Inr (u, db'') \<longrightarrow>
            u_role u = ''user'' \<and> db_users db'' = db_users db @ [u])"
  using assms
  by (auto simp: register_endpoint_def register_def Let_def split: sum.splits option.splits)

theorem register_role_is_user_witness:
  "register_endpoint stub_hash
     [(''username'', JStr ''mallory''), (''password'', JStr ''letmein123''), (''role'', JStr ''admin'')]
     db0
   = Inr (\<lparr>u_id = 3, u_username = ''mallory'', u_password = ''$2b$letmein123'', u_role = ''user''\<rparr>,
          \<lparr>db_users = [amina, root_user,
              \<lparr>u_id = 3, u_username = ''mallory'', u_password = ''$2b$letmein123'', u_role = ''user''\<rparr>],
           db_notes = [], db_user_seq = 4, db_note_seq = 1\<rparr>)
   \<and> u_role \<lparr>u_id = 3, u_username = ''mallory'', u_password = ''$2b$letmein123'', u_role = ''user''\<rparr>
       = ''user''"
proof -
  have r: "register_endpoint stub_hash
     [(''username'', JStr ''mallory''), (''password'', JStr ''letmein123''), (''role'', JStr ''admin'')]
     db0
   = Inr (\<lparr>u_id = 3, u_username = ''mallory'', u_password = ''$2b$letmein123'', u_role = ''user''\<rparr>,
          \<lparr>db_users = [amina, root_user,
              \<lparr>u_id = 3, u_username = ''mallory'', u_password = ''$2b$letmein123'', u_role = ''user''\<rparr>],
           db_notes = [], db_user_seq = 4, db_note_seq = 1\<rparr>)"
    by (simp add: register_endpoint_def register_def UserCreate_validate_def get_user_def
        db0_def amina_def root_user_def stub_hash_def Let_def)
  from register_role_is_user[OF r] r show ?thesis by simp
qed



section \<open>The note handlers: ownership and the listing cache\<close>

lemma db_get_replace_other:
  "db_get rows i = Some r \<Longrightarrow> n_owner_id r \<noteq> b \<Longrightarrow> n_owner_id new \<noteq> b \<Longrightarrow>
   filter (\<lambda>n. n_owner_id n = b) (replace_row rows i new) = filter (\<lambda>n. n_owner_id n = b) rows"
  by (induction rows) (auto simp: db_get_def split: if_splits)

lemma db_get_delete_other:
  "db_get rows i = Some r \<Longrightarrow> n_owner_id r \<noteq> b \<Longrightarrow>
   filter (\<lambda>n. n_owner_id n = b) (delete_row rows i) = filter (\<lambda>n. n_owner_id n = b) rows"
  by (induction rows) (auto simp: db_get_def split: if_splits)

lemma digit_char_not_colon: "d < 10 \<Longrightarrow> CHR '':'' \<noteq> digit_char d"
proof
  assume "d < 10" and "CHR '':'' = digit_char d"
  then have "digit_val (CHR '':'') = Some d"
    using digit_val_digit_char[of d] by simp
  then show False by (simp add: digit_val_def)
qed

lemma digits_no_colon: "CHR '':'' \<notin> set (digits n)"
proof (induction n rule: digits.induct)
  case (1 n)
  show ?case
  proof (cases "n < 10")
    case True
    then show ?thesis by (simp add: digits.simps[of n] digit_char_not_colon)
  next
    case False
    with 1 show ?thesis by (simp add: digits.simps[of n] digit_char_not_colon)
  qed
qed

lemma str_int_no_colon: "CHR '':'' \<notin> set (str_int i)"
  by (simp add: str_int_def digits_no_colon)

lemma str_int_nonempty: "str_int i \<noteq> []"
  by (simp add: str_int_def digits_nonempty)

lemma split_at_first:
  "c \<notin> set xs \<Longrightarrow> c \<notin> set xs' \<Longrightarrow> xs @ c # ys = xs' @ c # ys' \<Longrightarrow> xs = xs' \<and> ys = ys'"
proof (induction xs arbitrary: xs')
  case Nil
  then show ?case by (cases xs') auto
next
  case (Cons x xs)
  then show ?case by (cases xs') auto
qed

lemma colon_split:
  assumes "str_int a @ CHR '':'' # x = str_int b @ CHR '':'' # y"
  shows "a = b \<and> x = y"
  using split_at_first[OF str_int_no_colon[of a] str_int_no_colon[of b] assms]
  by (simp add: str_int_inj)


lemma owner_pattern_not_listing_key: "owner_pattern a \<noteq> listing_key b skip limit search"
proof
  assume "owner_pattern a = listing_key b skip limit search"
  then have "str_int a @ CHR '':'' # ''*''
           = str_int b @ CHR '':'' # (str_int skip @ '':'' @ str_int limit @ '':'' @ str_opt search)"
    by (simp add: owner_pattern_def listing_key_def)
  from colon_split[OF this] have "''*'' = str_int skip @ '':'' @ str_int limit @ '':'' @ str_opt search"
    by simp
  then have "length ''*'' = length (str_int skip @ '':'' @ str_int limit @ '':'' @ str_opt search)"
    by (rule arg_cong)
  then show False by simp
qed




lemma delete_pattern_keeps_listing:
  "redis_delete redis (owner_pattern a) (listing_key b skip limit search)
     = redis (listing_key b skip limit search)"
  using owner_pattern_not_listing_key[of a b skip limit search]
  by (auto simp: redis_delete_def)

lemma mutate_other_view:
  assumes "u_id u \<noteq> b"
  shows "same_view b s (mutate u m s)"
proof (cases s)
  case (Pair db redis)
  show ?thesis
  proof (cases m)
    case (Create nc)
    with Pair assms show ?thesis
      by (simp add: same_view_def create_note_def Let_def)
  next
    case (Update i nu)
    show ?thesis
    proof (cases "db_get (db_notes db) i")
      case None
      with Pair Update show ?thesis
        by (simp add: same_view_def update_note_def Let_def delete_pattern_keeps_listing)
    next
      case (Some r)
      show ?thesis
      proof (cases "n_owner_id r = u_id u")
        case False
        with Some Pair Update show ?thesis
          by (simp add: same_view_def update_note_def Let_def delete_pattern_keeps_listing)
      next
        case True
        with assms have o: "n_owner_id r \<noteq> b" by simp
        have "\<And>new. n_owner_id new = n_owner_id r \<Longrightarrow>
          filter (\<lambda>n. n_owner_id n = b) (replace_row (db_notes db) i new)
            = filter (\<lambda>n. n_owner_id n = b) (db_notes db)"
          using db_get_replace_other[OF Some o] o by simp
        with Some Pair Update True show ?thesis
          by (simp add: same_view_def update_note_def Let_def delete_pattern_keeps_listing
              split: option.splits)
      qed
    qed
  next
    case (Delete i)
    show ?thesis
    proof (cases "db_get (db_notes db) i")
      case None
      with Pair Delete show ?thesis
        by (simp add: same_view_def delete_note_def Let_def)
    next
      case (Some r)
      show ?thesis
      proof (cases "n_owner_id r = u_id u")
        case False
        with Some Pair Delete show ?thesis
          by (simp add: same_view_def delete_note_def Let_def)
      next
        case True
        with assms have o: "n_owner_id r \<noteq> b" by simp
        from db_get_delete_other[OF Some o] Some Pair Delete True show ?thesis
          by (simp add: same_view_def delete_note_def Let_def delete_pattern_keeps_listing)
      qed
    qed
  qed
qed





lemma update_note_frame:
  assumes "b \<noteq> u_id current_user"
  shows "filter (\<lambda>n. n_owner_id n = b)
           (db_notes (fst (snd (update_note note_id note_update current_user db redis))))
         = filter (\<lambda>n. n_owner_id n = b) (db_notes db)"
  using mutate_other_view[of current_user b "(db, redis)" "Update note_id note_update"] assms
  by (simp add: same_view_def)

lemma delete_note_frame:
  assumes "b \<noteq> u_id current_user"
  shows "filter (\<lambda>n. n_owner_id n = b)
           (db_notes (fst (snd (delete_note note_id current_user db redis))))
         = filter (\<lambda>n. n_owner_id n = b) (db_notes db)"
  using mutate_other_view[of current_user b "(db, redis)" "Delete note_id"] assms
  by (simp add: same_view_def)

text \<open>
  Claim C9. For \<^verbatim>\<open>get_note\<close>, \<^verbatim>\<open>update_note\<close> and \<^verbatim>\<open>delete_note\<close>: a note id
  with no row gives 404; a row whose owner is not the current user gives 403; in both
  cases the record store is unchanged. A note is returned, updated or deleted only
  when the current user owns it, and the rows of every other owner stay as they were.
\<close>

theorem single_note_ownership:
  "(db_get (db_notes db) note_id = None \<longrightarrow>
      get_note note_id current_user db = Inl (HTTPException 404 ''Note not found'' [])
      \<and> fst (update_note note_id note_update current_user db redis)
          = Inl (HTTPException 404 ''Note not found'' [])
      \<and> fst (delete_note note_id current_user db redis)
          = Inl (HTTPException 404 ''Note not found'' [])
      \<and> fst (snd (update_note note_id note_update current_user db redis)) = db
      \<and> fst (snd (delete_note note_id current_user db redis)) = db)
   \<and> (db_get (db_notes db) note_id = Some note \<and> n_owner_id note \<noteq> u_id current_user \<longrightarrow>
      get_note note_id current_user db
          = Inl (HTTPException 403 ''Not authorized to access this note'' [])
      \<and> fst (update_note note_id note_update current_user db redis)
          = Inl (HTTPException 403 ''Not authorized to update this note'' [])
      \<and> fst (delete_note note_id current_user db redis)
          = Inl (HTTPException 403 ''Not authorized to delete this note'' [])
      \<and> fst (snd (update_note note_id note_update current_user db redis)) = db
      \<and> fst (snd (delete_note note_id current_user db redis)) = db)
   \<and> (get_note note_id current_user db = Inr found \<longrightarrow>
      db_get (db_notes db) note_id = Some found \<and> n_owner_id found = u_id current_user)
   \<and> (fst (update_note note_id note_update current_user db redis) = Inr updated \<longrightarrow>
      (\<exists>old. db_get (db_notes db) note_id = Some old \<and> n_owner_id old = u_id current_user
         \<and> n_owner_id updated = u_id current_user \<and> n_id updated = n_id old))
   \<and> (fst (delete_note note_id current_user db redis) = Inr () \<longrightarrow>
      (\<exists>old. db_get (db_notes db) note_id = Some old \<and> n_owner_id old = u_id current_user))
   \<and> (fst (snd (update_note note_id note_update current_user db redis)) \<noteq> db \<longrightarrow>
      (\<exists>old. db_get (db_notes db) note_id = Some old \<and> n_owner_id old = u_id current_user))
   \<and> (fst (snd (delete_note note_id current_user db redis)) \<noteq> db \<longrightarrow>
      (\<exists>old. db_get (db_notes db) note_id = Some old \<and> n_owner_id old = u_id current_user))
   \<and> (b \<noteq> u_id current_user \<longrightarrow>
      filter (\<lambda>n. n_owner_id n = b)
          (db_notes (fst (snd (update_note note_id note_update current_user db redis))))
        = filter (\<lambda>n. n_owner_id n = b) (db_notes db)
      \<and> filter (\<lambda>n. n_owner_id n = b)
          (db_notes (fst (snd (delete_note note_id current_user db redis))))
        = filter (\<lambda>n. n_owner_id n = b) (db_notes db))"
proof -
  have frame: "b \<noteq> u_id current_user \<longrightarrow>
      filter (\<lambda>n. n_owner_id n = b)
          (db_notes (fst (snd (update_note note_id note_update current_user db redis))))
        = filter (\<lambda>n. n_owner_id n = b) (db_notes db)
      \<and> filter (\<lambda>n. n_owner_id n = b)
          (db_notes (fst (snd (delete_note note_id current_user db redis))))
        = filter (\<lambda>n. n_owner_id n = b) (db_notes db)"
    using update_note_frame[of b current_user note_id note_update db redis]
      delete_note_frame[of b current_user note_id db redis]
    by blast
  have rest: "(db_get (db_notes db) note_id = None \<longrightarrow>
      get_note note_id current_user db = Inl (HTTPException 404 ''Note not found'' [])
      \<and> fst (update_note note_id note_update current_user db redis)
          = Inl (HTTPException 404 ''Note not found'' [])
      \<and> fst (delete_note note_id current_user db redis)
          = Inl (HTTPException 404 ''Note not found'' [])
      \<and> fst (snd (update_note note_id note_update current_user db redis)) = db
      \<and> fst (snd (delete_note note_id current_user db redis)) = db)
   \<and> (db_get (db_notes db) note_id = Some note \<and> n_owner_id note \<noteq> u_id current_user \<longrightarrow>
      get_note note_id current_user db
          = Inl (HTTPException 403 ''Not authorized to access this note'' [])
      \<and> fst (update_note note_id note_update current_user db redis)
          = Inl (HTTPException 403 ''Not authorized to update this note'' [])
      \<and> fst (delete_note note_id current_user db redis)
          = Inl (HTTPException 403 ''Not authorized to delete this note'' [])
      \<and> fst (snd (update_note note_id note_update current_user db redis)) = db
      \<and> fst (snd (delete_note note_id current_user db redis)) = db)
   \<and> (get_note note_id current_user db = Inr found \<longrightarrow>
      db_get (db_notes db) note_id = Some found \<and> n_owner_id found = u_id current_user)
   \<and> (fst (update_note note_id note_update current_user db redis) = Inr updated \<longrightarrow>
      (\<exists>old. db_get (db_notes db) note_id = Some old \<and> n_owner_id old = u_id current_user
         \<and> n_owner_id updated = u_id current_user \<and> n_id updated = n_id old))
   \<and> (fst (delete_note note_id current_user db redis) = Inr () \<longrightarrow>
      (\<exists>old. db_get (db_notes db) note_id = Some old \<and> n_owner_id old = u_id current_user))
   \<and> (fst (snd (update_note note_id note_update current_user db redis)) \<noteq> db \<longrightarrow>
      (\<exists>old. db_get (db_notes db) note_id = Some old \<and> n_owner_id old = u_id current_user))
   \<and> (fst (snd (delete_note note_id current_user db redis)) \<noteq> db \<longrightarrow>
      (\<exists>old. db_get (db_notes db) note_id = Some old \<and> n_owner_id old = u_id current_user))"
    by (auto simp: get_note_def update_note_def delete_note_def Let_def
        split: option.splits if_splits)
  show ?thesis
    apply (insert rest frame)
    apply (intro conjI)
    apply blast+
    done
qed


theorem single_note_ownership_witness:
  "get_note 2 amina db1 = Inl (HTTPException 403 ''Not authorized to access this note'' [])
   \<and> fst (update_note 2 \<lparr>nu_title = Some ''mine now'', nu_content = None\<rparr> amina db1 Map.empty)
       = Inl (HTTPException 403 ''Not authorized to update this note'' [])
   \<and> fst (delete_note 2 amina db1 Map.empty)
       = Inl (HTTPException 403 ''Not authorized to delete this note'' [])
   \<and> fst (snd (update_note 2 \<lparr>nu_title = Some ''mine now'', nu_content = None\<rparr> amina db1 Map.empty))
       = db1
   \<and> fst (snd (delete_note 2 amina db1 Map.empty)) = db1
   \<and> get_note 99 amina db1 = Inl (HTTPException 404 ''Note not found'' [])
   \<and> get_note 1 amina db1 = Inr shopping"
proof -
  have g: "db_get (db_notes db1) 2 = Some secrets \<and> n_owner_id secrets \<noteq> u_id amina"
    by (simp add: db_get_def db1_def shopping_def secrets_def amina_def)
  have n: "db_get (db_notes db1) 99 = None"
    by (simp add: db_get_def db1_def shopping_def secrets_def)
  have o: "get_note 1 amina db1 = Inr shopping"
    by (simp add: get_note_def db_get_def db1_def shopping_def amina_def)
  from single_note_ownership[of db1 2 amina "\<lparr>nu_title = Some ''mine now'', nu_content = None\<rparr>"
      Map.empty secrets] g
    single_note_ownership[of db1 99 amina "\<lparr>nu_title = Some ''mine now'', nu_content = None\<rparr>"
      Map.empty] n o
  show ?thesis by simp
qed


section \<open>The listing cache after a mutation\<close>

lemma mutate_store:
  "snd (mutate u m (db, redis)) = redis
   \<or> snd (mutate u m (db, redis)) = redis_delete redis (owner_pattern (u_id u))"
proof (cases m)
  case (Create nc)
  then show ?thesis by simp
next
  case (Update i nu)
  have "redis_delete (redis_delete redis (owner_pattern (u_id u))) (owner_pattern (u_id u))
          = redis_delete redis (owner_pattern (u_id u))"
    by (simp add: redis_delete_def)
  with Update show ?thesis
    by (simp add: update_note_def Let_def split: option.splits)
next
  case (Delete i)
  then show ?thesis
    by (simp add: delete_note_def Let_def split: option.splits)
qed

lemma mutate_keeps_listing:
  "snd (mutate u m (db, redis)) (listing_key owner skip limit search)
     = redis (listing_key owner skip limit search)"
  using mutate_store[of u m db redis] delete_pattern_keeps_listing[of redis "u_id u" owner skip limit search]
  by auto

lemma key_amina: "listing_key 1 0 10 None = ''notes:1:0:10:None''"
  by (simp add: listing_key_def str_int_def digits.simps digit_char_def str_opt_def)

lemma pattern_amina: "owner_pattern 1 = ''notes:1:*''"
  by (simp add: owner_pattern_def str_int_def digits.simps digit_char_def)

text \<open>
  Claim C1 fails on the code. No mutation handler removes a cached listing:
  \<^verbatim>\<open>create_note\<close> never touches the store, and \<^verbatim>\<open>update_note\<close> and \<^verbatim>\<open>delete_note\<close>
  delete the key \<^verbatim>\<open>notes:<id>:*\<close>, which is no listing key. In the run below the owner
  lists (nothing yet), creates a note, and lists again one second later: the cached
  empty listing is still there and is what the second listing returns.
\<close>

theorem mutations_leave_listing_cached:
  "snd (mutate u m (db, redis)) (listing_key (u_id u) skip limit search)
     = redis (listing_key (u_id u) skip limit search)
   \<and> get_notes demo_lib amina db0 0 10 None 1000 Map.empty
       = (Inr [], [''notes:1:0:10:None'' \<mapsto> (''[]'', 1060)])
   \<and> create_note \<lparr>nc_title = ''shopping'', nc_content = ''milk''\<rparr> amina db0
       = (shopping, db0\<lparr>db_notes := [shopping], db_note_seq := 2\<rparr>)
   \<and> redis_get [''notes:1:0:10:None'' \<mapsto> (''[]'', 1060)] 1001 (listing_key 1 0 10 None)
       = Some ''[]''
   \<and> get_notes demo_lib amina (db0\<lparr>db_notes := [shopping], db_note_seq := 2\<rparr>) 0 10 None 1001
         [''notes:1:0:10:None'' \<mapsto> (''[]'', 1060)]
       = (Inr [], [''notes:1:0:10:None'' \<mapsto> (''[]'', 1060)])"
proof (intro conjI)
  show "snd (mutate u m (db, redis)) (listing_key (u_id u) skip limit search)
     = redis (listing_key (u_id u) skip limit search)"
    by (rule mutate_keeps_listing)
  show "get_notes demo_lib amina db0 0 10 None 1000 Map.empty
       = (Inr [], [''notes:1:0:10:None'' \<mapsto> (''[]'', 1060)])"
    by (simp add: get_notes_def Let_def amina_def key_amina redis_get_def redis_set_def
        demo_lib_def db0_def truthy_def)
  show "create_note \<lparr>nc_title = ''shopping'', nc_content = ''milk''\<rparr> amina db0
       = (shopping, db0\<lparr>db_notes := [shopping], db_note_seq := 2\<rparr>)"
    by (simp add: create_note_def Let_def amina_def db0_def shopping_def)
  show "redis_get [''notes:1:0:10:None'' \<mapsto> (''[]'', 1060)] 1001 (listing_key 1 0 10 None)
       = Some ''[]''"
    by (simp add: key_amina redis_get_def)
  show "get_notes demo_lib amina (db0\<lparr>db_notes := [shopping], db_note_seq := 2\<rparr>) 0 10 None 1001
         [''notes:1:0:10:None'' \<mapsto> (''[]'', 1060)]
       = (Inr [], [''notes:1:0:10:None'' \<mapsto> (''[]'', 1060)])"
    by (simp add: get_notes_def Let_def amina_def key_amina redis_get_def demo_lib_def)
qed

lemma update_keeps_stale_listing:
  "snd (snd (update_note 1 \<lparr>nu_title = Some ''groceries'', nu_content = None\<rparr> amina
               (db0\<lparr>db_notes := [shopping], db_note_seq := 2\<rparr>)
               [''notes:1:0:10:None'' \<mapsto> (''[]'', 1060)]))
     ''notes:1:0:10:None'' = Some (''[]'', 1060)"
  by (simp add: update_note_def Let_def db_get_def shopping_def amina_def pattern_amina
      redis_delete_def)




section \<open>What one owner sees of the others\<close>






























section \<open>Racing handlers and the store\<close>

lemma dispatch_read_counted:
  assumes cl: "client request = Some ip"
    and w: "0 < rl_window self"
    and b: "now - now mod rl_window self = ws"
    and c: "counted st (window_key ip ws) c (ws + rl_window self)"
  shows "dispatch_read self store_up request now st =
           Inr (window_key ip ws, if c = 0 then None else Some (str_int c))"
proof -
  have lt: "now < ws + rl_window self" using bucket_bounds[OF w b] by simp
  have g: "redis_get st now (window_key ip ws) = (if c = 0 then None else Some (str_int c))"
    using redis_get_counted[OF c lt] .
  show ?thesis
    using cl w b g by (simp add: dispatch_read_def store_up_def window_key_def Let_def)
qed

lemma dispatch_write_counted:
  assumes w: "0 < rl_window self"
  shows "dispatch_write self store_up request now st (k, if c = 0 then None else Some (str_int c)) =
           Inr (dispatch_answer self request (c + 1),
                st(k \<mapsto> (str_int (c + 1), now + rl_window self)))"
  using w by (simp add: dispatch_write_def store_up_def redis_set_def py_int_str_int Let_def)

text \<open>
  Claim C8, as the code has it. The listing put is one \<^verbatim>\<open>SET\<close> and the owner
  invalidation one \<^verbatim>\<open>DEL\<close> of one key, but the counter update is a \<^verbatim>\<open>GET\<close> followed by
  a \<^verbatim>\<open>SET\<close> of the count that was read plus one. When two handlers for the same
  client both read before either writes, both see the same count, and the store ends
  with the count raised by one although two requests were served.
\<close>

theorem counter_update_is_read_then_write:
  assumes cl1: "client request1 = Some ip" and cl2: "client request2 = Some ip"
    and w: "0 < rl_window self"
    and b: "now - now mod rl_window self = ws"
    and c: "counted st (window_key ip ws) c (ws + rl_window self)"
  shows "dispatch_race self request1 request2 now st =
           Inr ((dispatch_answer self request1 (c + 1), dispatch_answer self request2 (c + 1)),
                st(window_key ip ws \<mapsto> (str_int (c + 1), now + rl_window self)))
       \<and> (snd (get_notes lib u db skip limit search now redis) = redis
            \<or> (\<exists>notes. redis_set redis now (listing_key (u_id u) skip limit search)
                           (json_dumps lib notes) 60
                         = Inr (snd (get_notes lib u db skip limit search now redis))))
       \<and> (snd (mutate u m (db, redis)) = redis
            \<or> snd (mutate u m (db, redis)) = redis_delete redis (owner_pattern (u_id u)))"
proof (intro conjI)
  show "dispatch_race self request1 request2 now st =
           Inr ((dispatch_answer self request1 (c + 1), dispatch_answer self request2 (c + 1)),
                st(window_key ip ws \<mapsto> (str_int (c + 1), now + rl_window self)))"
    by (simp add: dispatch_race_def dispatch_read_counted[OF cl1 w b c]
        dispatch_read_counted[OF cl2 w b c] dispatch_write_counted[OF w])
  show "snd (get_notes lib u db skip limit search now redis) = redis
            \<or> (\<exists>notes. redis_set redis now (listing_key (u_id u) skip limit search)
                           (json_dumps lib notes) 60
                         = Inr (snd (get_notes lib u db skip limit search now redis)))"
    by (auto simp: get_notes_def Let_def redis_set_def split: option.splits)
  show "snd (mutate u m (db, redis)) = redis
            \<or> snd (mutate u m (db, redis)) = redis_delete redis (owner_pattern (u_id u))"
    by (rule mutate_store)
qed

lemma key_office: "window_key ''10.0.0.1'' 120 = ''rate:10.0.0.1:120''"
  by (simp add: window_key_def str_int_def digits.simps digit_char_def)

theorem counter_update_is_read_then_write_witness:
  "dispatch_race \<lparr>rl_limit = 5, rl_window = 60\<rparr> office_client office_client 125
      [''rate:10.0.0.1:120'' \<mapsto> (str_int 4, 180)]
     = Inr ((CallNext office_client, CallNext office_client),
            [''rate:10.0.0.1:120'' \<mapsto> (str_int 5, 185)])"
proof -
  have c: "counted [''rate:10.0.0.1:120'' \<mapsto> (str_int 4, 180)] (window_key ''10.0.0.1'' 120) 4
             (120 + rl_window \<lparr>rl_limit = 5, rl_window = 60\<rparr>)"
    by (simp add: counted_def key_office)
  from counter_update_is_read_then_write[of office_client "''10.0.0.1''" office_client
      "\<lparr>rl_limit = 5, rl_window = 60\<rparr>" 125 120 _ 4, OF _ _ _ _ c]
  show ?thesis
    by (simp add: office_client_def key_office dispatch_answer_def)
qed

theorem counter_race_counterexample:
  "dispatch_race \<lparr>rl_limit = 1, rl_window = 60\<rparr> office_client office_client 120 Map.empty
     = Inr ((CallNext office_client, CallNext office_client),
            [''rate:10.0.0.1:120'' \<mapsto> (''1'', 180)])
   \<and> fst (serve \<lparr>rl_limit = 1, rl_window = 60\<rparr> office_client [120, 120] Map.empty)
     = [Inr (CallNext office_client), Inr (Response ''Too Many Requests'' 429)]"
proof -
  have k: "str_int 120 = ''120''"
    by (simp add: str_int_def digits.simps digit_char_def)
  have one: "str_int 1 = ''1''" and two: "str_int 2 = ''2''"
    by (simp_all add: str_int_def digits.simps digit_char_def)
  have p: "py_int ''1'' = Inr 1"
    using py_int_str_int[of 1] by (simp add: one)
  show ?thesis
    by (simp add: dispatch_race_def serve.simps dispatch_def dispatch_read_def dispatch_write_def
        dispatch_answer_def store_up_def office_client_def k one two p redis_get_def redis_set_def
        Let_def)
qed


end
